theory Spec2Isabelle
  imports Main "HOL-Library.Sublist"
begin

section \<open>The module writer of plgo (plgo/modulewriter.go)\<close>

text \<open>
  The file under verification parses a Go package, collects its exported functions and
  writes a temporary module (package.go, pl.go, methods.go) together with the packaging
  files of a PostgreSQL extension (the SQL script, the .control file and the Makefile).

  Go strings are byte sequences: they are modelled as \<open>string\<close>, a list of 8-bit
  characters, so that \<open>length\<close>, \<open>take\<close> and \<open>drop\<close> count bytes as Go's \<open>len\<close> and
  slice expressions do.
\<close>

subsection \<open>Characters that cannot be written inside a literal\<close>

definition dquote :: string where
  "dquote = [CHR 0x22]"

definition squote :: string where
  "squote = [CHR 0x27]"

definition bslash :: string where
  "bslash = [CHR 0x5C]"

subsection \<open>The functions of package strings that the source calls\<close>

text \<open>
  \<open>strings.Index(s, substr)\<close>: the byte index of the first occurrence of \<open>substr\<close> in
  \<open>s\<close>. Go returns -1 when there is none; the model returns \<open>None\<close>.
\<close>

fun strings_Index :: "string \<Rightarrow> string \<Rightarrow> nat option" where
  "strings_Index [] substr = (if substr = [] then Some 0 else None)"
| "strings_Index (c # s) substr =
     (if prefix substr (c # s) then Some 0 else map_option Suc (strings_Index s substr))"

text \<open>
  \<open>strings.Replace(s, old, new, 1)\<close>, the only form the source uses: the first occurrence
  of \<open>old\<close> is replaced by \<open>new\<close>; a string without an occurrence is returned unchanged,
  and no error is reported in either case.
\<close>

definition strings_Replace1 :: "string \<Rightarrow> string \<Rightarrow> string \<Rightarrow> string" where
  "strings_Replace1 s old new =
     (case strings_Index s old of
        None \<Rightarrow> s
      | Some i \<Rightarrow> take i s @ new @ drop (i + length old) s)"

subsection \<open>Errors and panics\<close>

text \<open>
  A Go error value is either produced by a library or system call (\<open>LibError\<close>, and
  \<open>NotExistError\<close> for the ones \<open>os.IsNotExist\<close> recognises), or built by \<open>fmt.Errorf\<close>:
  \<open>Errorf msg\<close> for a message without a wrapped error, \<open>Wrapf prefix err\<close> for
  \<open>fmt.Errorf(prefix + "%w", err)\<close>.
\<close>

datatype error =
    LibError string
  | NotExistError string
  | Errorf string
  | Wrapf string error

fun os_IsNotExist :: "error \<Rightarrow> bool" where
  "os_IsNotExist (NotExistError _) = True"
| "os_IsNotExist _ = False"

fun Error :: "error \<Rightarrow> string" where
  "Error (LibError msg) = msg"
| "Error (NotExistError msg) = msg"
| "Error (Errorf msg) = msg"
| "Error (Wrapf pre err) = pre @ Error err"

text \<open>
  A call either returns or faults at run time (a slice expression out of range is a
  panic, not an error value).
\<close>

datatype 'a go = Panic | Return 'a

subsection \<open>The data model\<close>

text \<open>
  The syntax tree comes from go/ast. The source reads two things from it: the map
  \<open>Files\<close> of a package (file name to file) and the text of a file's leading comment,
  \<open>packageFile.Doc.Text()\<close> (the empty string when the file has none; the text of a
  comment ends with a newline). The declarations are kept as opaque text.
\<close>

record ast_File =
  Doc_Text :: string
  Decls :: "string list"

record ast_Package =
  Name :: string
  Files :: "string \<rightharpoonup> ast_File"

text \<open>
  Modelled from the spec: the interface \<open>CodeWriter\<close> is declared outside
  modulewriter.go. The source calls three methods on it: \<open>FuncDec()\<close> returns the
  declaration fragment, \<open>Code(buf)\<close> writes the wrapper implementation to a buffer, and
  \<open>SQL(packageName, sqlFile)\<close> writes the registration statement to the SQL file. A code
  writer is stateless beyond the descriptor it holds, so it is the record of the three
  texts it produces.
\<close>

record CodeWriter =
  FuncDec :: string
  Code :: string
  SQL :: "string \<Rightarrow> string"

text \<open>
  \<open>ModuleWriter\<close>, field by field. The \<open>fset\<close> field (source positions) is only handed to
  the printer and is part of \<open>format_Node\<close> below.
\<close>

record ModuleWriter =
  PackageName :: string
  Doc :: string
  packageAst :: ast_Package
  "functions" :: "CodeWriter list"

text \<open>The requirements of a parsed go.mod (golang.org/x/mod/modfile).\<close>

record modfile_Require =
  Mod_Path :: string
  Mod_Version :: string

record modfile_File =
  Require :: "modfile_Require list"

subsection \<open>The world around one run\<close>

text \<open>
  Everything the source obtains from outside itself during one run: the parser, the
  file system as it is read, the environment, the external tool \<open>pg_config\<close>, the
  formatter, and the functions of this repository that are defined in other files
  (\<open>FuncVisitor\<close>, \<open>Remover\<close>, \<open>buildPath\<close>, \<open>getcorrectpath\<close>,
  \<open>addOtherIncludesAndLDFLAGS\<close>), which are taken as parameters.

  \<^item> \<open>parser_ParseDir path\<close>: the result of \<open>parser.ParseDir\<close> with the filter that
    skips the _test.go files: the error, or the map from package name to package.
  \<^item> \<open>range_keys pkg\<close>: the order in which this run's \<open>range packageAst.Files\<close>
    visits the keys of the map. Go does not fix the iteration order of a map.
  \<^item> \<open>walk_keys pkg\<close>: the order in which \<open>ast.Walk\<close>, called on the package,
    visits the keys of the same map in this run: it walks the files with a \<open>range\<close> of
    its own over \<open>Files\<close>.
  \<^item> \<open>funcVisitor_File file v\<close>: the fields \<open>err\<close> and \<open>functions\<close> of the
    visitor after \<open>ast.Walk\<close> has walked one file, from their values \<open>v\<close> before it.
  \<^item> \<open>remover_Walk pkg\<close>: the tree after \<open>ast.Walk(new(Remover), packageAst)\<close>, which
    rewrites it in place.
  \<^item> \<open>format_Node pkg\<close>: the text \<open>format.Node\<close> prints for
    \<open>ast.MergePackageFiles(pkg, ast.FilterFuncDuplicates)\<close>, or its error.
  \<^item> \<open>format_Source\<close>: \<open>format.Source\<close>.
  \<^item> \<open>os_Create\<close>, \<open>file_Close\<close>, \<open>ioutil_WriteFile_err\<close>: the error (or nil) of
    creating, closing and writing the file of that path.
  \<^item> \<open>exec_pg_config\<close>: the combined output of \<open>pg_config --includedir-server\<close>, or
    the error of running it.
\<close>

record world =
  parser_ParseDir :: "string \<Rightarrow> error + (string \<rightharpoonup> ast_Package)"
  range_keys :: "ast_Package \<Rightarrow> string list"
  walk_keys :: "ast_Package \<Rightarrow> string list"
  funcVisitor_File :: "ast_File \<Rightarrow> error option \<times> CodeWriter list \<Rightarrow> error option \<times> CodeWriter list"
  remover_Walk :: "ast_Package \<Rightarrow> ast_Package"
  filepath_Abs :: "string \<Rightarrow> error + string"
  filepath_Base :: "string \<Rightarrow> string"
  filepath_Join :: "string list \<Rightarrow> string"
  filepath_SplitList :: "string \<Rightarrow> string list"
  os_LookupEnv :: "string \<Rightarrow> string option"
  build_Default_GOPATH :: string
  os_Stat :: "string \<Rightarrow> error option"
  ioutil_ReadFile :: "string \<Rightarrow> error + string"
  modfile_Parse :: "string \<Rightarrow> string \<Rightarrow> error + modfile_File"
  exec_pg_config :: "error + string"
  getcorrectpath :: "string \<Rightarrow> string"
  addOtherIncludesAndLDFLAGS :: "string \<Rightarrow> string \<Rightarrow> string"
  buildPath :: "error + string"
  format_Node :: "ast_Package \<Rightarrow> error + string"
  format_Source :: "string \<Rightarrow> error + string"
  os_Create :: "string \<Rightarrow> error option"
  file_Close :: "string \<Rightarrow> error option"
  ioutil_WriteFile_err :: "string \<Rightarrow> error option"


text \<open>
  The files written so far, by path. The state of a run is the module writer (its tree
  is rewritten in place by \<open>writeUserPackage\<close>) and the files.
\<close>

type_synonym files = "string \<rightharpoonup> string"

record state =
  writer :: ModuleWriter
  disk :: files

text \<open>
  \<open>ioutil.WriteFile(path, data, 0644)\<close>: the file holds \<open>data\<close> when the call returns
  nil. A failing call is taken to leave the file as it was.
\<close>

definition ioutil_WriteFile :: "world \<Rightarrow> string \<Rightarrow> string \<Rightarrow> files \<Rightarrow> error option \<times> files" where
  "ioutil_WriteFile w path data fs =
     (case ioutil_WriteFile_err w path of
        Some err \<Rightarrow> (Some err, fs)
      | None \<Rightarrow> (None, fs(path \<mapsto> data)))"

definition os_Getenv :: "world \<Rightarrow> string \<Rightarrow> string" where
  "os_Getenv w key = (case os_LookupEnv w key of None \<Rightarrow> [] | Some v \<Rightarrow> v)"

subsection \<open>NewModuleWriter\<close>

text \<open>
  Modelled from the spec: \<open>FuncVisitor\<close> is defined outside modulewriter.go; it builds one
  code writer per exported function of the file it visits, in source order, and keeps an
  error in its field \<open>err\<close>. \<open>ast.Walk(funcVisitor, packageAst)\<close> walks the files of the
  package one after the other, in the order of its iteration over the map \<open>Files\<close>; the
  visitor starts with no error and no function.
\<close>

definition ast_Walk_FuncVisitor :: "world \<Rightarrow> ast_Package \<Rightarrow> error option \<times> CodeWriter list" where
  "ast_Walk_FuncVisitor w pkgAst =
     foldl (\<lambda>v file. funcVisitor_File w file v) (None, [])
       (List.map_filter (Files pkgAst) (walk_keys w pkgAst))"

text \<open>
  \<open>len(f) > 1\<close> is the number of keys of the map; the loop over \<open>packageAst.Files\<close>
  appends each file's comment text and a newline, in the order of this run's iteration.
\<close>

definition NewModuleWriter :: "world \<Rightarrow> string \<Rightarrow> error + ModuleWriter" where
  "NewModuleWriter w packagePath =
     (case parser_ParseDir w packagePath of
        Inl err \<Rightarrow> Inl (Wrapf ''Cannot parse package: '' err)
      | Inr f \<Rightarrow>
          if card (dom f) > 1 then Inl (Errorf (''More than one package in '' @ packagePath))
          else (case f ''main'' of
            None \<Rightarrow> Inl (Errorf (''No package main in '' @ packagePath))
          | Some pkgAst \<Rightarrow>
              let packageDoc =
                    foldl (\<lambda>doc packageFile. doc @ Doc_Text packageFile @ ''\<newline>'') []
                      (List.map_filter (Files pkgAst) (range_keys w pkgAst))
              in (case ast_Walk_FuncVisitor w pkgAst of
                    (Some err, _) \<Rightarrow> Inl err
                  | (None, funcs) \<Rightarrow>
                      (case filepath_Abs w packagePath of
                         Inl err \<Rightarrow> Inl err
                       | Inr absPackagePath \<Rightarrow>
                           Inr \<lparr>PackageName = filepath_Base w absPackagePath,
                                Doc = packageDoc,
                                packageAst = pkgAst,
                                functions = funcs\<rparr>))))"

subsection \<open>versionInfo and readPlGoSource\<close>

text \<open>
  The parameter is called \<open>mod\<close> in the source. The loop over \<open>moddata.Require\<close>
  returns at the first requirement whose path is the given one.
\<close>

definition versionInfo :: "world \<Rightarrow> string \<Rightarrow> error + string" where
  "versionInfo w modpath =
     (case ioutil_ReadFile w ''go.mod'' of
        Inl err \<Rightarrow>
          if os_IsNotExist err then Inl (Errorf ''go.mod is missing. Please run go mod init'')
          else Inl err
      | Inr gomod \<Rightarrow>
          (case modfile_Parse w ''go.mod'' gomod of
             Inl err \<Rightarrow> Inl err
           | Inr moddata \<Rightarrow>
               (case List.find (\<lambda>req. Mod_Path req = modpath) (Require moddata) of
                  Some req \<Rightarrow> Inr (Mod_Version req)
                | None \<Rightarrow> Inl (Errorf (''Cannot find '' @ modpath @ '' in go.mod'')))))"

text \<open>
  The two search loops of \<open>readPlGoSource\<close> keep the first candidate path that
  \<open>os.Stat\<close> accepts; \<open>found\<close> stays the empty string when there is none.
\<close>

definition first_found :: "world \<Rightarrow> string list \<Rightarrow> string" where
  "first_found w paths =
     (case List.find (\<lambda>path. os_Stat w path = None) paths of None \<Rightarrow> [] | Some path \<Rightarrow> path)"

definition not_installed :: error where
  "not_installed =
     Errorf (''Package github.com/algonode/plgo not installed\<newline>'' @
             ''please install it with: go get -u github.com/algonode/plgo/plgo'')"

definition readPlGoSource :: "world \<Rightarrow> error + string" where
  "readPlGoSource w =
     (let goPath0 = os_Getenv w ''GOPATH'';
          goPath = (if goPath0 = [] then build_Default_GOPATH w else goPath0);
          found0 = first_found w
                     (map (\<lambda>goPathElement. filepath_Join w
                             [goPathElement, ''src'', ''github.com'', ''algonode'', ''plgo'', ''pl.go''])
                        (filepath_SplitList w goPath));
          search =
            (if found0 = [] then
               (case versionInfo w ''github.com/algonode/plgo'' of
                  Inl err \<Rightarrow> Inl err
                | Inr version \<Rightarrow>
                    let pathEnd = filepath_Join w
                          [''pkg'', ''mod'', ''github.com'', ''algonode'', ''plgo@'' @ version, ''pl.go''];
                        found1 =
                          (case os_LookupEnv w ''GOMODCACHE'' of
                             Some cache \<Rightarrow>
                               (let path = filepath_Join w [cache, pathEnd]
                                in if os_Stat w path = None then path else found0)
                           | None \<Rightarrow> found0)
                    in Inr (if found1 = [] then
                              first_found w
                                (map (\<lambda>goPathElement. filepath_Join w [goPathElement, pathEnd])
                                   (filepath_SplitList w goPath))
                            else found1))
             else Inr found0)
      in case search of
           Inl err \<Rightarrow> Inl err
         | Inr found \<Rightarrow>
             if found \<noteq> [] then
               (case ioutil_ReadFile w found of
                  Inr rv \<Rightarrow> Inr rv
                | Inl err \<Rightarrow> Inl (Wrapf ''Cannot read plgo package: '' err))
             else Inl not_installed)"

subsection \<open>The three files of the module\<close>

text \<open>
  \<open>writeUserPackage\<close> first rewrites the tree in place, then creates package.go, prints
  the merged tree into it and closes it. A printer that fails is taken to leave the
  created file empty.
\<close>

definition writeUserPackage :: "world \<Rightarrow> string \<Rightarrow> state \<Rightarrow> error option \<times> state" where
  "writeUserPackage w tempPackagePath st =
     (let mw = (writer st)\<lparr>packageAst := remover_Walk w (packageAst (writer st))\<rparr>;
          path = filepath_Join w [tempPackagePath, ''package.go'']
      in case os_Create w path of
           Some err \<Rightarrow>
             (Some (Wrapf ''Cannot write file tempdir: '' err), \<lparr>writer = mw, disk = disk st\<rparr>)
         | None \<Rightarrow>
             (case format_Node w (packageAst mw) of
                Inl err \<Rightarrow>
                  (Some (Wrapf ''Cannot format package '' err),
                   \<lparr>writer = mw, disk = (disk st)(path \<mapsto> [])\<rparr>)
              | Inr txt \<Rightarrow>
                  (case file_Close w path of
                     Some err \<Rightarrow>
                       (Some (Wrapf ''Cannot write file tempdir: '' err),
                        \<lparr>writer = mw, disk = (disk st)(path \<mapsto> txt)\<rparr>)
                   | None \<Rightarrow> (None, \<lparr>writer = mw, disk = (disk st)(path \<mapsto> txt)\<rparr>))))"

text \<open>
  The text of pl.go just before the marker is replaced: the template without its first
  12 bytes behind the new package clause, the include directory substituted, and the
  platform's additions. \<open>plgoSource[12:]\<close> is a run-time fault on a string shorter than
  12 bytes, which the caller below turns into \<open>Panic\<close>.
\<close>

definition funcdec_marker :: string where
  "funcdec_marker = ''//{funcdec}''"

definition glue_template :: "world \<Rightarrow> string \<Rightarrow> string \<Rightarrow> string" where
  "glue_template w plgoSourceBin postgresIncludeDir =
     (let plgoSource = ''package main\<newline>\<newline>'' @ drop 12 plgoSourceBin;
          postgresIncludeStr = getcorrectpath w postgresIncludeDir;
          plgoSource = strings_Replace1 plgoSource ''/usr/include/postgresql/server'' postgresIncludeStr
      in addOtherIncludesAndLDFLAGS w plgoSource postgresIncludeStr)"

definition funcdecs :: "CodeWriter list \<Rightarrow> string" where
  "funcdecs fs = foldl (\<lambda>funcdec f. funcdec @ FuncDec f) [] fs"

definition writeplgo :: "world \<Rightarrow> string \<Rightarrow> state \<Rightarrow> error option go \<times> state" where
  "writeplgo w tempPackagePath st =
     (case readPlGoSource w of
        Inl err \<Rightarrow> (Return (Some err), st)
      | Inr plgoSourceBin \<Rightarrow>
          if length plgoSourceBin < 12 then (Panic, st)
          else (case exec_pg_config w of
                  Inl err \<Rightarrow> (Return (Some (Wrapf ''Cannot run pg_config: '' err)), st)
                | Inr postgresIncludeDir \<Rightarrow>
                    let plgoSource = strings_Replace1
                          (glue_template w plgoSourceBin postgresIncludeDir)
                          funcdec_marker (funcdecs (functions (writer st)))
                    in (case ioutil_WriteFile w (filepath_Join w [tempPackagePath, ''pl.go''])
                               plgoSource (disk st) of
                          (Some err, fs) \<Rightarrow>
                            (Return (Some (Wrapf ''Cannot write file tempdir: '' err)),
                             st\<lparr>disk := fs\<rparr>)
                        | (None, fs) \<Rightarrow> (Return None, st\<lparr>disk := fs\<rparr>))))"

text \<open>
  The header of methods.go. Writing to a \<open>bytes.Buffer\<close> never returns an error, so the
  source's check after \<open>buf.WriteString\<close> has no branch in the model.
\<close>

definition methods_header :: string where
  "methods_header =
     ''package main\<newline>\<newline>/*\<newline>'' @
     ''#include '' @ dquote @ ''postgres.h'' @ dquote @ ''\<newline>'' @
     ''#include '' @ dquote @ ''utils/elog.h'' @ dquote @ ''\<newline>'' @
     ''#include '' @ dquote @ ''fmgr.h'' @ dquote @ ''\<newline>'' @
     ''extern void elog_error(char* string);\<newline>'' @
     ''*/\<newline>'' @
     ''import '' @ dquote @ ''C'' @ dquote @ ''\<newline>''"

definition methods_buf :: "CodeWriter list \<Rightarrow> string" where
  "methods_buf fs = foldl (\<lambda>buf f. buf @ Code f) methods_header fs"

definition writeExportedMethods :: "world \<Rightarrow> string \<Rightarrow> state \<Rightarrow> error option \<times> state" where
  "writeExportedMethods w tempPackagePath st =
     (case format_Source w (methods_buf (functions (writer st))) of
        Inl err \<Rightarrow> (Some err, st)
      | Inr code \<Rightarrow>
          (case ioutil_WriteFile w (filepath_Join w [tempPackagePath, ''methods.go''])
                  code (disk st) of
             (Some err, fs) \<Rightarrow> (Some (Wrapf ''Cannot write file tempdir: '' err), st\<lparr>disk := fs\<rparr>)
           | (None, fs) \<Rightarrow> (None, st\<lparr>disk := fs\<rparr>)))"

subsection \<open>WriteModule\<close>

text \<open>
  Go's pair \<open>(string, error)\<close> is the sum: \<open>Inl err\<close> for \<open>("", err)\<close>, \<open>Inr path\<close> for
  \<open>(path, nil)\<close>.
\<close>

definition WriteModule :: "world \<Rightarrow> state \<Rightarrow> (error + string) go \<times> state" where
  "WriteModule w st =
     (case buildPath w of
        Inl err \<Rightarrow> (Return (Inl (Wrapf ''Cannot get tempdir: '' err)), st)
      | Inr tempPackagePath \<Rightarrow>
          (case writeUserPackage w tempPackagePath st of
             (Some err, st1) \<Rightarrow> (Return (Inl err), st1)
           | (None, st1) \<Rightarrow>
               (case writeplgo w tempPackagePath st1 of
                  (Panic, st2) \<Rightarrow> (Panic, st2)
                | (Return (Some err), st2) \<Rightarrow> (Return (Inl err), st2)
                | (Return None, st2) \<Rightarrow>
                    (case writeExportedMethods w tempPackagePath st2 of
                       (Some err, st3) \<Rightarrow> (Return (Inl err), st3)
                     | (None, st3) \<Rightarrow> (Return (Inr tempPackagePath), st3)))))"

subsection \<open>The packaging files\<close>

text \<open>
  \<open>WriteSQL\<close> creates the script and writes the header and each function's statement
  to it. The source ignores the results of these writes and of the deferred \<open>Close\<close>;
  writes to the created file are taken to append.
\<close>

definition sql_header :: "string \<Rightarrow> string" where
  "sql_header packageName =
     ''-- complain if script is sourced in psql, rather than via CREATE EXTENSION\<newline>'' @
     bslash @ ''echo Use '' @ dquote @ ''CREATE EXTENSION '' @ packageName @ dquote @
     '' to load this file. '' @ bslash @ ''quit\<newline>''"

definition sql_script :: "string \<Rightarrow> CodeWriter list \<Rightarrow> string" where
  "sql_script packageName fs = foldl (\<lambda>sqlFile f. sqlFile @ SQL f packageName) (sql_header packageName) fs"

definition WriteSQL :: "world \<Rightarrow> string \<Rightarrow> state \<Rightarrow> error option \<times> state" where
  "WriteSQL w tempPackagePath st =
     (let mw = writer st;
          sqlPath = filepath_Join w [tempPackagePath, PackageName mw @ ''--0.1.sql'']
      in case os_Create w sqlPath of
           Some err \<Rightarrow> (Some err, st)
         | None \<Rightarrow> (None, st\<lparr>disk := (disk st)(sqlPath \<mapsto> sql_script (PackageName mw) (functions mw))\<rparr>))"

definition control_text :: "string \<Rightarrow> string" where
  "control_text packageName =
     ''# '' @ packageName @ '' extension\<newline>'' @
     ''comment = '' @ squote @ packageName @ '' extension'' @ squote @ ''\<newline>'' @
     ''default_version = '' @ squote @ ''0.1'' @ squote @ ''\<newline>'' @
     ''relocatable = true''"

definition WriteControl :: "world \<Rightarrow> string \<Rightarrow> state \<Rightarrow> error option \<times> state" where
  "WriteControl w path st =
     (let mw = writer st;
          controlPath = filepath_Join w [path, PackageName mw @ ''.control'']
      in case ioutil_WriteFile w controlPath (control_text (PackageName mw)) (disk st) of
           (err, fs) \<Rightarrow> (err, st\<lparr>disk := fs\<rparr>))"

definition makefile_text :: "string \<Rightarrow> string" where
  "makefile_text packageName =
     ''EXTENSION = '' @ packageName @ ''\<newline>'' @
     ''DATA = '' @ packageName @ ''--0.1.sql  # script files to install\<newline>'' @
     ''# REGRESS = '' @ packageName @ ''_test     # our test script file (without extension)\<newline>'' @
     ''MODULES = '' @ packageName @ ''          # our c module file to build\<newline>'' @
     ''override with_llvm = no\<newline>'' @
     ''\<newline>'' @
     ''# postgres build stuff\<newline>'' @
     ''PG_CONFIG = pg_config\<newline>'' @
     ''PGXS := $(shell $(PG_CONFIG) --pgxs)\<newline>'' @
     ''include $(PGXS)''"

definition WriteMakefile :: "world \<Rightarrow> string \<Rightarrow> state \<Rightarrow> error option \<times> state" where
  "WriteMakefile w path st =
     (let makePath = filepath_Join w [path, ''Makefile'']
      in case ioutil_WriteFile w makePath (makefile_text (PackageName (writer st))) (disk st) of
           (err, fs) \<Rightarrow> (err, st\<lparr>disk := fs\<rparr>))"

subsection \<open>A concrete run\<close>

text \<open>
  A small world on which the definitions can be evaluated: a package \<open>main\<close> of two files
  in the directory \<open>demo\<close>, two exported functions, and a template found under GOPATH.
\<close>

definition add_writer :: CodeWriter where
  "add_writer =
     \<lparr>FuncDec = ''//export Add\<newline>'',
      Code = ''func Add() {}\<newline>'',
      SQL = (\<lambda>packageName. ''CREATE FUNCTION Add() AS '' @ packageName @ '';\<newline>'')\<rparr>"

definition greet_writer :: CodeWriter where
  "greet_writer =
     \<lparr>FuncDec = ''//export Greet\<newline>'',
      Code = ''func Greet() {}\<newline>'',
      SQL = (\<lambda>packageName. ''CREATE FUNCTION Greet() AS '' @ packageName @ '';\<newline>'')\<rparr>"

definition demo_package :: ast_Package where
  "demo_package =
     \<lparr>Name = ''main'',
      Files = [''a.go'' \<mapsto> \<lparr>Doc_Text = ''Package a\<newline>'', Decls = [''func Add()'']\<rparr>,
               ''b.go'' \<mapsto> \<lparr>Doc_Text = ''Package b\<newline>'', Decls = [''func Greet()'']\<rparr>]\<rparr>"

definition demo_template :: string where
  "demo_template = ''package plgo\<newline>import C\<newline>//{funcdec}\<newline>''"

definition demo_plgo_path :: string where
  "demo_plgo_path = ''/go/src/github.com/algonode/plgo/pl.go''"

fun join_slash :: "string list \<Rightarrow> string" where
  "join_slash [] = []"
| "join_slash [x] = x"
| "join_slash (x # y # ys) = x @ ''/'' @ join_slash (y # ys)"

definition base_name :: "string \<Rightarrow> string" where
  "base_name path = rev (takeWhile (\<lambda>c. c \<noteq> CHR ''/'') (rev path))"

text \<open>The visitor of the concrete run: one function in each of the two files.\<close>

definition demo_visitor :: "ast_File \<Rightarrow> error option \<times> CodeWriter list \<Rightarrow> error option \<times> CodeWriter list" where
  "demo_visitor file v =
     (fst v,
      snd v @ (if Decls file = [''func Add()''] then [add_writer]
               else if Decls file = [''func Greet()''] then [greet_writer]
               else []))"

definition demo_world :: world where
  "demo_world =
     \<lparr>parser_ParseDir = (\<lambda>path. Inr [''main'' \<mapsto> demo_package]),
      range_keys = (\<lambda>pkg. [''a.go'', ''b.go'']),
      walk_keys = (\<lambda>pkg. [''a.go'', ''b.go'']),
      funcVisitor_File = demo_visitor,
      remover_Walk = (\<lambda>pkg. pkg),
      filepath_Abs = (\<lambda>path. Inr (''/work/'' @ path)),
      filepath_Base = base_name,
      filepath_Join = join_slash,
      filepath_SplitList = (\<lambda>path. [path]),
      os_LookupEnv = (\<lambda>key. if key = ''GOPATH'' then Some ''/go'' else None),
      build_Default_GOPATH = ''/root/go'',
      os_Stat = (\<lambda>path. if path = demo_plgo_path then None else Some (NotExistError path)),
      ioutil_ReadFile =
        (\<lambda>path. if path = demo_plgo_path then Inr demo_template else Inl (NotExistError path)),
      modfile_Parse = (\<lambda>name data. Inr \<lparr>Require = []\<rparr>),
      exec_pg_config = Inr ''/usr/include/postgresql/14/server'',
      getcorrectpath = (\<lambda>path. path),
      addOtherIncludesAndLDFLAGS = (\<lambda>plgoSource dir. plgoSource),
      buildPath = Inr ''/tmp/plgo1'',
      format_Node = (\<lambda>pkg. Inr (concat (map (\<lambda>name. case Files pkg name of
                                                      None \<Rightarrow> []
                                                    | Some file \<Rightarrow> concat (Decls file))
                                       [''a.go'', ''b.go'']))),
      format_Source = (\<lambda>src. Inr src),
      os_Create = (\<lambda>path. None),
      file_Close = (\<lambda>path. None),
      ioutil_WriteFile_err = (\<lambda>path. None)\<rparr>"

definition demo_writer :: ModuleWriter where
  "demo_writer =
     \<lparr>PackageName = ''demo'',
      Doc = ''Package a\<newline>\<newline>Package b\<newline>\<newline>'',
      packageAst = demo_package,
      functions = [add_writer, greet_writer]\<rparr>"

definition demo_state :: state where
  "demo_state = \<lparr>writer = demo_writer, disk = Map.empty\<rparr>"

text \<open>The same world with a template that lacks the marker, and with one that is too short.\<close>

definition markerless_template :: string where
  "markerless_template = ''package plgo\<newline>import C\<newline>''"

definition markerless_world :: world where
  "markerless_world =
     demo_world\<lparr>ioutil_ReadFile :=
       (\<lambda>path. if path = demo_plgo_path then Inr markerless_template
               else Inl (NotExistError path))\<rparr>"

definition short_world :: world where
  "short_world =
     demo_world\<lparr>ioutil_ReadFile :=
       (\<lambda>path. if path = demo_plgo_path then Inr ''package p'' else Inl (NotExistError path))\<rparr>"







text \<open>Directories that hold two packages, and one package that is not \<open>main\<close>.\<close>

definition two_package_world :: world where
  "two_package_world =
     demo_world\<lparr>parser_ParseDir :=
       (\<lambda>path. Inr [''main'' \<mapsto> demo_package, ''util'' \<mapsto> demo_package\<lparr>Name := ''util''\<rparr>])\<rparr>"

definition library_world :: world where
  "library_world =
     demo_world\<lparr>parser_ParseDir := (\<lambda>path. Inr [''util'' \<mapsto> demo_package\<lparr>Name := ''util''\<rparr>])\<rparr>"

text \<open>A world outside GOPATH whose go.mod pins the version of plgo.\<close>

definition demo_requires :: "modfile_Require list" where
  "demo_requires =
     [\<lparr>Mod_Path = ''github.com/lib/pq'', Mod_Version = ''v1.10.9''\<rparr>,
      \<lparr>Mod_Path = ''github.com/algonode/plgo'', Mod_Version = ''v0.3.1''\<rparr>]"

definition gomod_world :: world where
  "gomod_world =
     demo_world\<lparr>ioutil_ReadFile :=
                  (\<lambda>path. if path = ''go.mod'' then Inr ''module demo'' else Inl (NotExistError path)),
                modfile_Parse := (\<lambda>name data. Inr \<lparr>Require = demo_requires\<rparr>)\<rparr>"

text \<open>Worlds in which one of the three steps of \<open>WriteModule\<close> fails.\<close>

definition readonly_world :: world where
  "readonly_world = demo_world\<lparr>os_Create := (\<lambda>path. Some (LibError ''permission denied''))\<rparr>"

definition no_pg_config_world :: world where
  "no_pg_config_world = demo_world\<lparr>exec_pg_config := Inl (LibError ''executable file not found'')\<rparr>"

definition bad_format_world :: world where
  "bad_format_world = demo_world\<lparr>format_Source := (\<lambda>src. Inl (LibError ''expected declaration''))\<rparr>"

text \<open>The three files of the concrete run.\<close>

definition package_go :: string where
  "package_go = ''func Add()func Greet()''"

definition pl_go :: string where
  "pl_go = ''package main\<newline>\<newline>\<newline>import C\<newline>//export Add\<newline>//export Greet\<newline>\<newline>''"

definition methods_go :: string where
  "methods_go = methods_header @ ''func Add() {}\<newline>func Greet() {}\<newline>''"

section \<open>Properties\<close>

subsection \<open>Searching and replacing\<close>

lemma strings_Index_None_iff: "strings_Index s sub = None \<longleftrightarrow> \<not> sublist sub s"
  by (induction s) (auto simp: sublist_Cons_right)

lemma strings_Index_Some:
  "strings_Index s sub = Some i \<Longrightarrow> s = take i s @ sub @ drop (i + length sub) s"
proof (induction s arbitrary: i)
  case Nil
  then show ?case by (simp split: if_splits)
next
  case (Cons c s)
  show ?case
  proof (cases "prefix sub (c # s)")
    case True
    with Cons.prems have "i = 0" by simp
    with True show ?thesis by (auto simp: prefix_def)
  next
    case False
    with Cons.prems obtain j where j: "strings_Index s sub = Some j" "i = Suc j" by auto
    from Cons.IH [OF j(1)] j(2) show ?thesis by simp
  qed
qed

lemma strings_Index_first:
  "strings_Index s sub = Some i \<Longrightarrow> j < i \<Longrightarrow> \<not> prefix sub (drop j s)"
proof (induction s arbitrary: i j)
  case Nil
  then show ?case by (simp split: if_splits)
next
  case (Cons c s)
  from Cons.prems have np: "\<not> prefix sub (c # s)" by (auto split: if_splits)
  with Cons.prems obtain k where k: "strings_Index s sub = Some k" "i = Suc k" by auto
  show ?case
  proof (cases j)
    case 0
    with np show ?thesis by simp
  next
    case (Suc j')
    with Cons.prems k have "j' < k" by simp
    from Cons.IH [OF k(1) this] Suc show ?thesis by simp
  qed
qed

lemma strings_Replace1_absent: "\<not> sublist old s \<Longrightarrow> strings_Replace1 s old new = s"
  by (simp add: strings_Replace1_def strings_Index_None_iff [symmetric])

lemma strings_Replace1_first:
  assumes "sublist old s"
  shows "\<exists>pre post. s = pre @ old @ post \<and> (\<forall>j<length pre. \<not> prefix old (drop j s)) \<and>
           strings_Replace1 s old new = pre @ new @ post"
proof -
  from assms obtain i where i: "strings_Index s old = Some i"
    using strings_Index_None_iff [of s old] by (cases "strings_Index s old") auto
  have dec: "s = take i s @ old @ drop (i + length old) s"
    by (rule strings_Index_Some [OF i])
  have first: "\<forall>j<length (take i s). \<not> prefix old (drop j s)"
    using strings_Index_first [OF i] by simp
  have "strings_Replace1 s old new = take i s @ new @ drop (i + length old) s"
    by (simp add: strings_Replace1_def i)
  with dec first show ?thesis by blast
qed

lemma foldl_append_concat: "foldl (\<lambda>acc x. acc @ g x) a xs = a @ concat (map g xs)"
  by (induction xs arbitrary: a) simp_all

lemma funcdecs_concat: "funcdecs fs = concat (map FuncDec fs)"
  by (simp add: funcdecs_def foldl_append_concat)

lemma methods_buf_concat: "methods_buf fs = methods_header @ concat (map Code fs)"
  by (simp add: methods_buf_def foldl_append_concat)

lemma sql_script_concat:
  "sql_script packageName fs = sql_header packageName @ concat (map (\<lambda>f. SQL f packageName) fs)"
  by (simp add: sql_script_def foldl_append_concat)

lemma find_Some_first:
  "List.find P xs = Some x \<longleftrightarrow> (\<exists>pre post. xs = pre @ x # post \<and> P x \<and> (\<forall>y\<in>set pre. \<not> P y))"
proof (induction xs)
  case Nil
  then show ?case by simp
next
  case (Cons a xs)
  show ?case
  proof (cases "P a")
    case True
    have "(\<exists>pre post. a # xs = pre @ x # post \<and> P x \<and> (\<forall>y\<in>set pre. \<not> P y)) \<longleftrightarrow> a = x"
    proof
      assume "\<exists>pre post. a # xs = pre @ x # post \<and> P x \<and> (\<forall>y\<in>set pre. \<not> P y)"
      then obtain pre post where *: "a # xs = pre @ x # post" "\<forall>y\<in>set pre. \<not> P y" by blast
      with True show "a = x" by (cases pre) auto
    next
      assume "a = x"
      with True have "a # xs = [] @ x # xs \<and> P x \<and> (\<forall>y\<in>set []. \<not> P y)" by simp
      then show "\<exists>pre post. a # xs = pre @ x # post \<and> P x \<and> (\<forall>y\<in>set pre. \<not> P y)" by blast
    qed
    with True show ?thesis by simp
  next
    case False
    have "(\<exists>pre post. a # xs = pre @ x # post \<and> P x \<and> (\<forall>y\<in>set pre. \<not> P y))
          \<longleftrightarrow> (\<exists>pre post. xs = pre @ x # post \<and> P x \<and> (\<forall>y\<in>set pre. \<not> P y))"
    proof
      assume "\<exists>pre post. a # xs = pre @ x # post \<and> P x \<and> (\<forall>y\<in>set pre. \<not> P y)"
      then obtain pre post where *: "a # xs = pre @ x # post" "P x" "\<forall>y\<in>set pre. \<not> P y" by blast
      with False obtain pre' where "pre = a # pre'" by (cases pre) auto
      with * have "xs = pre' @ x # post \<and> P x \<and> (\<forall>y\<in>set pre'. \<not> P y)" by simp
      then show "\<exists>pre post. xs = pre @ x # post \<and> P x \<and> (\<forall>y\<in>set pre. \<not> P y)" by blast
    next
      assume "\<exists>pre post. xs = pre @ x # post \<and> P x \<and> (\<forall>y\<in>set pre. \<not> P y)"
      then obtain pre post where "xs = pre @ x # post" "P x" "\<forall>y\<in>set pre. \<not> P y" by blast
      with False have "a # xs = (a # pre) @ x # post \<and> P x \<and> (\<forall>y\<in>set (a # pre). \<not> P y)" by simp
      then show "\<exists>pre post. a # xs = pre @ x # post \<and> P x \<and> (\<forall>y\<in>set pre. \<not> P y)" by blast
    qed
    with False Cons.IH show ?thesis by simp
  qed
qed

lemma find_None_image: "List.find (\<lambda>x. f x = k) xs = None \<longleftrightarrow> k \<notin> f ` set xs"
  by (auto simp: find_None_iff)

lemma control_text_extension: "sublist (packageName @ '' extension'') (control_text packageName)"
proof -
  have "control_text packageName =
          ''# '' @ (packageName @ '' extension'') @
          (''\<newline>comment = '' @ squote @ packageName @ '' extension'' @ squote @ ''\<newline>'' @
           ''default_version = '' @ squote @ ''0.1'' @ squote @ ''\<newline>'' @ ''relocatable = true'')"
    by (simp add: control_text_def)
  then show ?thesis unfolding sublist_def by blast
qed

lemma makefile_text_extension: "prefix (''EXTENSION = '' @ packageName) (makefile_text packageName)"
  unfolding makefile_text_def append_assoc [symmetric] by (rule prefixI) simp


subsection \<open>What a step reads and what it changes\<close>

lemma writeUserPackage_frame:
  "p \<noteq> filepath_Join w [tmp, ''package.go''] \<Longrightarrow>
     disk (snd (writeUserPackage w tmp st)) p = disk st p"
  by (simp add: writeUserPackage_def Let_def split: option.splits sum.splits)

lemma writeplgo_frame:
  "p \<noteq> filepath_Join w [tmp, ''pl.go''] \<Longrightarrow> disk (snd (writeplgo w tmp st)) p = disk st p"
  by (simp add: writeplgo_def ioutil_WriteFile_def Let_def split: option.splits sum.splits)

lemma writeUserPackage_world:
  "writeUserPackage (w\<lparr>exec_pg_config := pg\<rparr>) = writeUserPackage w"
  "writeUserPackage (w\<lparr>format_Source := fmt\<rparr>) = writeUserPackage w"
  by (simp_all add: writeUserPackage_def fun_eq_iff Let_def split: option.splits sum.splits)

lemma writeplgo_world:
  "writeplgo (w\<lparr>format_Source := fmt\<rparr>) = writeplgo w"
  by (simp add: writeplgo_def readPlGoSource_def versionInfo_def first_found_def os_Getenv_def
      glue_template_def ioutil_WriteFile_def fun_eq_iff Let_def
      cong: option.case_cong sum.case_cong if_cong)

lemma readPlGoSource_world:
  "readPlGoSource (w\<lparr>exec_pg_config := pg\<rparr>) = readPlGoSource w"
  by (simp add: readPlGoSource_def versionInfo_def first_found_def os_Getenv_def Let_def
      cong: option.case_cong sum.case_cong if_cong)




subsection \<open>Evaluating the concrete run\<close>

lemma NewModuleWriter_demo: "NewModuleWriter demo_world ''demo'' = Inr demo_writer"
  by (simp add: NewModuleWriter_def ast_Walk_FuncVisitor_def demo_visitor_def demo_world_def
      demo_writer_def demo_package_def List.map_filter_def base_name_def)

lemma readPlGoSource_demo: "readPlGoSource demo_world = Inr demo_template"
  by (simp add: readPlGoSource_def demo_world_def first_found_def os_Getenv_def demo_plgo_path_def)

lemma readPlGoSource_markerless: "readPlGoSource markerless_world = Inr markerless_template"
  by (simp add: readPlGoSource_def markerless_world_def demo_world_def first_found_def os_Getenv_def
      demo_plgo_path_def)

lemma readPlGoSource_short: "readPlGoSource short_world = Inr ''package p''"
  by (simp add: readPlGoSource_def short_world_def demo_world_def first_found_def os_Getenv_def
      demo_plgo_path_def)

lemma glue_template_demo:
  "glue_template demo_world demo_template ''/usr/include/postgresql/14/server'' =
     ''package main\<newline>\<newline>\<newline>import C\<newline>//{funcdec}\<newline>''"
  by (simp add: glue_template_def demo_world_def demo_template_def strings_Replace1_def)

lemma glue_template_markerless:
  "glue_template markerless_world markerless_template ''/usr/include/postgresql/14/server'' =
     ''package main\<newline>\<newline>\<newline>import C\<newline>''"
  by (simp add: glue_template_def markerless_world_def demo_world_def markerless_template_def
      strings_Replace1_def)

lemma funcdecs_demo:
  "funcdecs (functions (writer demo_state)) = ''//export Add\<newline>//export Greet\<newline>''"
  by (simp add: funcdecs_def demo_state_def demo_writer_def add_writer_def greet_writer_def)

lemma writeplgo_demo:
  "writeplgo demo_world ''/tmp/plgo1'' demo_state =
     (Return None,
      demo_state\<lparr>disk := [''/tmp/plgo1/pl.go'' \<mapsto>
        ''package main\<newline>\<newline>\<newline>import C\<newline>//export Add\<newline>//export Greet\<newline>\<newline>'']\<rparr>)"
proof -
  have "strings_Replace1 ''package main\<newline>\<newline>\<newline>import C\<newline>//{funcdec}\<newline>'' funcdec_marker
          ''//export Add\<newline>//export Greet\<newline>'' =
        ''package main\<newline>\<newline>\<newline>import C\<newline>//export Add\<newline>//export Greet\<newline>\<newline>''"
    by (simp add: strings_Replace1_def funcdec_marker_def)
  moreover have "exec_pg_config demo_world = Inr ''/usr/include/postgresql/14/server''"
    by (simp add: demo_world_def)
  moreover have "ioutil_WriteFile demo_world (filepath_Join demo_world [''/tmp/plgo1'', ''pl.go'']) content fs
     = (None, fs(''/tmp/plgo1/pl.go'' \<mapsto> content))" for content fs
    by (simp add: ioutil_WriteFile_def demo_world_def)
  moreover have "disk demo_state = Map.empty" by (simp add: demo_state_def)
  ultimately show ?thesis
    by (simp add: writeplgo_def readPlGoSource_demo glue_template_demo funcdecs_demo)
      (simp add: demo_template_def)
qed

lemma writeplgo_markerless:
  "writeplgo markerless_world ''/tmp/plgo1'' demo_state =
     (Return None,
      demo_state\<lparr>disk := [''/tmp/plgo1/pl.go'' \<mapsto> ''package main\<newline>\<newline>\<newline>import C\<newline>'']\<rparr>)"
proof -
  have "strings_Replace1 ''package main\<newline>\<newline>\<newline>import C\<newline>'' funcdec_marker
          ''//export Add\<newline>//export Greet\<newline>'' =
        ''package main\<newline>\<newline>\<newline>import C\<newline>''"
    by (simp add: strings_Replace1_def funcdec_marker_def)
  moreover have "exec_pg_config markerless_world = Inr ''/usr/include/postgresql/14/server''"
    by (simp add: markerless_world_def demo_world_def)
  moreover have "ioutil_WriteFile markerless_world (filepath_Join markerless_world [''/tmp/plgo1'', ''pl.go'']) content fs
     = (None, fs(''/tmp/plgo1/pl.go'' \<mapsto> content))" for content fs
    by (simp add: ioutil_WriteFile_def markerless_world_def demo_world_def)
  moreover have "disk demo_state = Map.empty" by (simp add: demo_state_def)
  ultimately show ?thesis
    by (simp add: writeplgo_def readPlGoSource_markerless glue_template_markerless funcdecs_demo)
      (simp add: markerless_template_def)
qed

lemma markerless_no_marker: "\<not> sublist funcdec_marker markerless_template"
  unfolding strings_Index_None_iff [symmetric]
  by (simp add: funcdec_marker_def markerless_template_def)

lemma demo_state_functions: "functions (writer demo_state) = [add_writer, greet_writer]"
  by (simp add: demo_state_def demo_writer_def)

lemma writeUserPackage_demo:
  "writeUserPackage demo_world ''/tmp/plgo1'' demo_state =
     (None, demo_state\<lparr>disk := [''/tmp/plgo1/package.go'' \<mapsto> package_go]\<rparr>)"
  by (simp add: writeUserPackage_def demo_world_def demo_state_def demo_writer_def demo_package_def
      package_go_def)

lemma writeplgo_demo_any:
  assumes "functions (writer st) = [add_writer, greet_writer]"
  shows "writeplgo demo_world ''/tmp/plgo1'' st =
           (Return None, st\<lparr>disk := (disk st)(''/tmp/plgo1/pl.go'' \<mapsto> pl_go)\<rparr>)"
proof -
  have "strings_Replace1 ''package main\<newline>\<newline>\<newline>import C\<newline>//{funcdec}\<newline>'' funcdec_marker
          ''//export Add\<newline>//export Greet\<newline>'' = pl_go"
    by (simp add: strings_Replace1_def funcdec_marker_def pl_go_def)
  moreover have "exec_pg_config demo_world = Inr ''/usr/include/postgresql/14/server''"
    by (simp add: demo_world_def)
  moreover have "ioutil_WriteFile demo_world (filepath_Join demo_world [''/tmp/plgo1'', ''pl.go'']) content fs
     = (None, fs(''/tmp/plgo1/pl.go'' \<mapsto> content))" for content fs
    by (simp add: ioutil_WriteFile_def demo_world_def)
  moreover have "funcdecs (functions (writer st)) = ''//export Add\<newline>//export Greet\<newline>''"
    by (simp add: assms funcdecs_def add_writer_def greet_writer_def)
  ultimately show ?thesis
    by (simp add: writeplgo_def readPlGoSource_demo glue_template_demo)
      (simp add: demo_template_def)
qed

lemma writeExportedMethods_demo_any:
  assumes "functions (writer st) = [add_writer, greet_writer]"
  shows "writeExportedMethods demo_world ''/tmp/plgo1'' st =
           (None, st\<lparr>disk := (disk st)(''/tmp/plgo1/methods.go'' \<mapsto> methods_go)\<rparr>)"
  by (simp add: writeExportedMethods_def methods_buf_concat assms ioutil_WriteFile_def
      demo_world_def methods_go_def add_writer_def greet_writer_def)







subsection \<open>Construction of the module writer\<close>

text \<open>
  C4. When the directory parses into more than one package, \<open>NewModuleWriter\<close> fails with
  the error "More than one package in" followed by the path. It returns no module writer, and
  every step that writes a file is a method of a module writer, so no emission step is
  reached; \<open>NewModuleWriter\<close> itself writes no file.
\<close>

theorem NewModuleWriter_multiple_packages:
  assumes "parser_ParseDir w packagePath = Inr f" and "card (dom f) > 1"
  shows "NewModuleWriter w packagePath = Inl (Errorf (''More than one package in '' @ packagePath))
         \<and> (\<forall>mw. NewModuleWriter w packagePath \<noteq> Inr mw)"
  using assms by (simp add: NewModuleWriter_def)

theorem NewModuleWriter_multiple_packages_witness:
  "NewModuleWriter two_package_world ''demo'' = Inl (Errorf ''More than one package in demo'')
   \<and> (\<forall>mw. NewModuleWriter two_package_world ''demo'' \<noteq> Inr mw)"
  using NewModuleWriter_multiple_packages
    [of two_package_world "''demo''"
        "[''main'' \<mapsto> demo_package, ''util'' \<mapsto> demo_package\<lparr>Name := ''util''\<rparr>]"]
  by (simp add: two_package_world_def demo_world_def)

text \<open>
  C5. When the directory holds a single package and its identifier is not \<open>main\<close>,
  \<open>NewModuleWriter\<close> fails with the error "No package main in" followed by the path, which
  is not the error of the multiple-packages case, whatever the paths.
\<close>

theorem NewModuleWriter_not_main:
  assumes "parser_ParseDir w packagePath = Inr f" and "dom f = {name}" and "name \<noteq> ''main''"
  shows "NewModuleWriter w packagePath = Inl (Errorf (''No package main in '' @ packagePath))
         \<and> Errorf (''No package main in '' @ packagePath)
             \<noteq> Errorf (''More than one package in '' @ otherPath)"
proof -
  from assms(2,3) have "f ''main'' = None" by (auto simp: dom_def)
  with assms show ?thesis by (simp add: NewModuleWriter_def)
qed

theorem NewModuleWriter_not_main_witness:
  "NewModuleWriter library_world ''demo'' = Inl (Errorf ''No package main in demo'')
   \<and> Errorf ''No package main in demo'' \<noteq> Errorf ''More than one package in demo''"
  using NewModuleWriter_not_main
    [of library_world "''demo''" "[''util'' \<mapsto> demo_package\<lparr>Name := ''util''\<rparr>]"
        "''util''" "''demo''"]
  by (simp add: library_world_def demo_world_def)

text \<open>
  C9. The \<open>PackageName\<close> of a constructed module writer is the base name of the absolute
  path of the directory. It is not taken from the parsed package, which was found under
  the key \<open>main\<close>: in the concrete run the directory \<open>demo\<close> gives the name \<open>demo\<close>.
\<close>

theorem NewModuleWriter_PackageName:
  assumes "NewModuleWriter w packagePath = Inr mw"
  shows "\<exists>f absPackagePath.
           parser_ParseDir w packagePath = Inr f \<and> f ''main'' = Some (packageAst mw) \<and>
           filepath_Abs w packagePath = Inr absPackagePath \<and>
           PackageName mw = filepath_Base w absPackagePath"
  using assms
  by (auto simp: NewModuleWriter_def Let_def
           split: sum.splits if_splits option.splits prod.splits)

theorem NewModuleWriter_PackageName_witness:
  "NewModuleWriter demo_world ''demo'' = Inr demo_writer \<and>
   PackageName demo_writer = ''demo'' \<and> PackageName demo_writer \<noteq> ''main'' \<and>
   (\<exists>f absPackagePath.
      parser_ParseDir demo_world ''demo'' = Inr f \<and> f ''main'' = Some (packageAst demo_writer) \<and>
      filepath_Abs demo_world ''demo'' = Inr absPackagePath \<and>
      PackageName demo_writer = filepath_Base demo_world absPackagePath)"
  using NewModuleWriter_PackageName [OF NewModuleWriter_demo]
  by (simp add: NewModuleWriter_demo) (simp add: demo_writer_def)

subsection \<open>The manifest resolver\<close>

text \<open>
  C8. \<open>versionInfo\<close> fails with "go.mod is missing" when go.mod does not exist, and with
  "Cannot find ... in go.mod" when the parsed go.mod has no requirement of the given path.
  It succeeds exactly when go.mod is read and parsed and has a requirement of that path,
  and then returns the version of the first such requirement.
\<close>

theorem versionInfo_cases:
  "(\<forall>err. ioutil_ReadFile w ''go.mod'' = Inl err \<and> os_IsNotExist err \<longrightarrow>
      versionInfo w modpath = Inl (Errorf ''go.mod is missing. Please run go mod init''))
   \<and> (\<forall>gomod moddata.
        ioutil_ReadFile w ''go.mod'' = Inr gomod \<and> modfile_Parse w ''go.mod'' gomod = Inr moddata \<and>
        modpath \<notin> Mod_Path ` set (Require moddata) \<longrightarrow>
        versionInfo w modpath = Inl (Errorf (''Cannot find '' @ modpath @ '' in go.mod'')))
   \<and> (versionInfo w modpath = Inr version \<longleftrightarrow>
        (\<exists>gomod moddata pre req post.
           ioutil_ReadFile w ''go.mod'' = Inr gomod \<and> modfile_Parse w ''go.mod'' gomod = Inr moddata \<and>
           Require moddata = pre @ req # post \<and> Mod_Path req = modpath \<and>
           (\<forall>r\<in>set pre. Mod_Path r \<noteq> modpath) \<and> version = Mod_Version req))"
proof (intro conjI allI impI)
  fix err
  assume "ioutil_ReadFile w ''go.mod'' = Inl err \<and> os_IsNotExist err"
  then show "versionInfo w modpath = Inl (Errorf ''go.mod is missing. Please run go mod init'')"
    by (simp add: versionInfo_def)
next
  fix gomod moddata
  assume "ioutil_ReadFile w ''go.mod'' = Inr gomod \<and> modfile_Parse w ''go.mod'' gomod = Inr moddata \<and>
        modpath \<notin> Mod_Path ` set (Require moddata)"
  then show "versionInfo w modpath = Inl (Errorf (''Cannot find '' @ modpath @ '' in go.mod''))"
    by (simp add: versionInfo_def find_None_image [symmetric])
next
  have "versionInfo w modpath = Inr version \<longleftrightarrow>
        (\<exists>gomod moddata req.
           ioutil_ReadFile w ''go.mod'' = Inr gomod \<and> modfile_Parse w ''go.mod'' gomod = Inr moddata \<and>
           List.find (\<lambda>req. Mod_Path req = modpath) (Require moddata) = Some req \<and>
           version = Mod_Version req)"
    by (auto simp: versionInfo_def split: sum.splits option.splits)
  then show "versionInfo w modpath = Inr version \<longleftrightarrow>
        (\<exists>gomod moddata pre req post.
           ioutil_ReadFile w ''go.mod'' = Inr gomod \<and> modfile_Parse w ''go.mod'' gomod = Inr moddata \<and>
           Require moddata = pre @ req # post \<and> Mod_Path req = modpath \<and>
           (\<forall>r\<in>set pre. Mod_Path r \<noteq> modpath) \<and> version = Mod_Version req)"
    unfolding find_Some_first by blast
qed

theorem versionInfo_cases_witness:
  "versionInfo demo_world ''github.com/algonode/plgo'' =
     Inl (Errorf ''go.mod is missing. Please run go mod init'')
   \<and> versionInfo gomod_world ''github.com/lib/pgx'' =
     Inl (Errorf ''Cannot find github.com/lib/pgx in go.mod'')
   \<and> versionInfo gomod_world ''github.com/algonode/plgo'' = Inr ''v0.3.1''"
proof -
  have "ioutil_ReadFile demo_world ''go.mod'' = Inl (NotExistError ''go.mod'') \<and>
        os_IsNotExist (NotExistError ''go.mod'')"
    by (simp add: demo_world_def demo_plgo_path_def)
  with versionInfo_cases [of demo_world "''github.com/algonode/plgo''" "[]"]
  have a: "versionInfo demo_world ''github.com/algonode/plgo'' =
     Inl (Errorf ''go.mod is missing. Please run go mod init'')" by blast
  have rd: "ioutil_ReadFile gomod_world ''go.mod'' = Inr ''module demo''"
    and ps: "modfile_Parse gomod_world ''go.mod'' ''module demo'' = Inr \<lparr>Require = demo_requires\<rparr>"
    by (simp_all add: gomod_world_def demo_world_def)
  have "''github.com/lib/pgx'' \<notin> Mod_Path ` set (Require \<lparr>Require = demo_requires\<rparr>)"
    by (simp add: demo_requires_def)
  with rd ps versionInfo_cases [of gomod_world "''github.com/lib/pgx''" "[]"]
  have "versionInfo gomod_world ''github.com/lib/pgx'' =
     Inl (Errorf (''Cannot find '' @ ''github.com/lib/pgx'' @ '' in go.mod''))" by blast
  then have b: "versionInfo gomod_world ''github.com/lib/pgx'' =
     Inl (Errorf ''Cannot find github.com/lib/pgx in go.mod'')" by simp
  have "Require \<lparr>Require = demo_requires\<rparr> =
          [\<lparr>Mod_Path = ''github.com/lib/pq'', Mod_Version = ''v1.10.9''\<rparr>] @
          \<lparr>Mod_Path = ''github.com/algonode/plgo'', Mod_Version = ''v0.3.1''\<rparr> # [] \<and>
        Mod_Path \<lparr>Mod_Path = ''github.com/algonode/plgo'', Mod_Version = ''v0.3.1''\<rparr>
          = ''github.com/algonode/plgo'' \<and>
        (\<forall>r\<in>set [\<lparr>Mod_Path = ''github.com/lib/pq'', Mod_Version = ''v1.10.9''\<rparr>].
           Mod_Path r \<noteq> ''github.com/algonode/plgo'') \<and>
        ''v0.3.1'' = Mod_Version \<lparr>Mod_Path = ''github.com/algonode/plgo'', Mod_Version = ''v0.3.1''\<rparr>"
    by (simp add: demo_requires_def)
  with rd ps versionInfo_cases [of gomod_world "''github.com/algonode/plgo''" "''v0.3.1''"]
  have c: "versionInfo gomod_world ''github.com/algonode/plgo'' = Inr ''v0.3.1''" by blast
  from a b c show ?thesis by simp
qed

subsection \<open>The glue source\<close>

text \<open>
  C10. Once the template is read, \<open>writeplgo\<close> faults on a template shorter than 12 bytes
  and on no other template; it does not return an error for it. On a template of at least 12
  bytes the text that is processed further is the new package clause followed by the
  template without its first 12 bytes, whatever these bytes are.
\<close>

theorem writeplgo_package_clause:
  assumes "readPlGoSource w = Inr plgoSourceBin"
  shows "(length plgoSourceBin < 12 \<longrightarrow> writeplgo w tmp st = (Panic, st))
       \<and> (12 \<le> length plgoSourceBin \<longrightarrow> fst (writeplgo w tmp st) \<noteq> Panic)
       \<and> (\<forall>dir. 12 \<le> length plgoSourceBin \<and> exec_pg_config w = Inr dir \<and>
                 ioutil_WriteFile_err w (filepath_Join w [tmp, ''pl.go'']) = None \<longrightarrow>
            writeplgo w tmp st =
              (Return None,
               st\<lparr>disk := (disk st)(filepath_Join w [tmp, ''pl.go''] \<mapsto>
                  strings_Replace1
                    (addOtherIncludesAndLDFLAGS w
                       (strings_Replace1 (''package main\<newline>\<newline>'' @ drop 12 plgoSourceBin)
                          ''/usr/include/postgresql/server'' (getcorrectpath w dir))
                       (getcorrectpath w dir))
                    funcdec_marker (funcdecs (functions (writer st))))\<rparr>))"
  using assms
  by (auto simp: writeplgo_def glue_template_def ioutil_WriteFile_def Let_def
           split: sum.splits option.splits)

theorem writeplgo_package_clause_witness:
  "writeplgo short_world ''/tmp/plgo1'' demo_state = (Panic, demo_state)
   \<and> fst (writeplgo demo_world ''/tmp/plgo1'' demo_state) \<noteq> Panic
   \<and> writeplgo demo_world ''/tmp/plgo1'' demo_state =
       (Return None, demo_state\<lparr>disk := [''/tmp/plgo1/pl.go'' \<mapsto> pl_go]\<rparr>)"
proof -
  note short = writeplgo_package_clause [OF readPlGoSource_short, of "''/tmp/plgo1''" demo_state]
  note long = writeplgo_package_clause [OF readPlGoSource_demo, of "''/tmp/plgo1''" demo_state]
  have "length ''package p'' < 12" by simp
  with short have a: "writeplgo short_world ''/tmp/plgo1'' demo_state = (Panic, demo_state)"
    by blast
  have len: "12 \<le> length demo_template" by (simp add: demo_template_def)
  with long have b: "fst (writeplgo demo_world ''/tmp/plgo1'' demo_state) \<noteq> Panic" by blast
  have pg: "exec_pg_config demo_world = Inr ''/usr/include/postgresql/14/server''"
    and wr: "ioutil_WriteFile_err demo_world (filepath_Join demo_world [''/tmp/plgo1'', ''pl.go'']) = None"
    by (simp_all add: demo_world_def)
  have "addOtherIncludesAndLDFLAGS demo_world
          (strings_Replace1 (''package main\<newline>\<newline>'' @ drop 12 demo_template)
             ''/usr/include/postgresql/server''
             (getcorrectpath demo_world ''/usr/include/postgresql/14/server''))
          (getcorrectpath demo_world ''/usr/include/postgresql/14/server'')
        = glue_template demo_world demo_template ''/usr/include/postgresql/14/server''"
    by (simp add: glue_template_def Let_def)
  then have ev: "strings_Replace1
          (addOtherIncludesAndLDFLAGS demo_world
             (strings_Replace1 (''package main\<newline>\<newline>'' @ drop 12 demo_template)
                ''/usr/include/postgresql/server''
                (getcorrectpath demo_world ''/usr/include/postgresql/14/server''))
             (getcorrectpath demo_world ''/usr/include/postgresql/14/server''))
          funcdec_marker (funcdecs (functions (writer demo_state))) = pl_go"
    by (simp only: glue_template_demo funcdecs_demo)
      (simp add: strings_Replace1_def funcdec_marker_def pl_go_def)
  have jn: "filepath_Join demo_world [''/tmp/plgo1'', ''pl.go''] = ''/tmp/plgo1/pl.go''"
    by (simp add: demo_world_def)
  have dk: "disk demo_state = Map.empty" by (simp add: demo_state_def)
  have c: "writeplgo demo_world ''/tmp/plgo1'' demo_state =
       (Return None, demo_state\<lparr>disk := [''/tmp/plgo1/pl.go'' \<mapsto> pl_go]\<rparr>)"
    using long [THEN conjunct2, THEN conjunct2, rule_format,
        of "''/usr/include/postgresql/14/server''", OF conjI [OF len conjI [OF pg wr]]]
    by (simp only: ev jn dk)
  from a b c show ?thesis by simp
qed

text \<open>
  C1, as the claim states it, fails: on a template without the marker \<open>writeplgo\<close> returns
  nil and writes pl.go.
\<close>

theorem writeplgo_marker_absent_counterexample:
  "readPlGoSource markerless_world = Inr markerless_template \<and>
   \<not> sublist funcdec_marker markerless_template \<and>
   writeplgo markerless_world ''/tmp/plgo1'' demo_state =
     (Return None,
      demo_state\<lparr>disk := [''/tmp/plgo1/pl.go'' \<mapsto> ''package main\<newline>\<newline>\<newline>import C\<newline>'']\<rparr>)"
  by (simp add: readPlGoSource_markerless markerless_no_marker writeplgo_markerless)

text \<open>
  C1, amended. When the text that reaches the replacement of the marker does not contain
  it, \<open>writeplgo\<close> does not fail on that account: the text is written to pl.go as it is,
  and the call returns nil, or the wrapped error of the write when the write fails.
\<close>

theorem writeplgo_marker_absent:
  assumes "readPlGoSource w = Inr plgoSourceBin" and "12 \<le> length plgoSourceBin"
    and "exec_pg_config w = Inr dir"
    and "\<not> sublist funcdec_marker (glue_template w plgoSourceBin dir)"
  shows "writeplgo w tmp st =
           (case ioutil_WriteFile_err w (filepath_Join w [tmp, ''pl.go'']) of
              None \<Rightarrow> (Return None,
                        st\<lparr>disk := (disk st)(filepath_Join w [tmp, ''pl.go''] \<mapsto>
                              glue_template w plgoSourceBin dir)\<rparr>)
            | Some err \<Rightarrow> (Return (Some (Wrapf ''Cannot write file tempdir: '' err)), st))"
  using assms
  by (simp add: writeplgo_def strings_Replace1_absent ioutil_WriteFile_def split: option.splits)

theorem writeplgo_marker_absent_witness:
  "writeplgo markerless_world ''/tmp/plgo1'' demo_state =
     (Return None,
      demo_state\<lparr>disk := [''/tmp/plgo1/pl.go'' \<mapsto> ''package main\<newline>\<newline>\<newline>import C\<newline>'']\<rparr>)"
proof -
  have len: "12 \<le> length markerless_template" by (simp add: markerless_template_def)
  have pg: "exec_pg_config markerless_world = Inr ''/usr/include/postgresql/14/server''"
    by (simp add: markerless_world_def demo_world_def)
  have absent: "\<not> sublist funcdec_marker
      (glue_template markerless_world markerless_template ''/usr/include/postgresql/14/server'')"
    unfolding strings_Index_None_iff [symmetric] glue_template_markerless
    by (simp add: funcdec_marker_def)
  have wr: "ioutil_WriteFile_err markerless_world ''/tmp/plgo1/pl.go'' = None"
    by (simp add: markerless_world_def demo_world_def)
  have jn: "filepath_Join markerless_world [''/tmp/plgo1'', ''pl.go''] = ''/tmp/plgo1/pl.go''"
    by (simp add: markerless_world_def demo_world_def)
  have dk: "disk demo_state = Map.empty" by (simp add: demo_state_def)
  from writeplgo_marker_absent [OF readPlGoSource_markerless len pg absent, of "''/tmp/plgo1''" demo_state]
  show ?thesis by (simp add: wr jn dk glue_template_markerless)
qed

subsection \<open>One fragment per function, in the order of the list\<close>

text \<open>
  C2, as the claim states it, fails for the glue source: with a template that lacks the
  marker, pl.go is written without the declaration of any of the two functions.
\<close>

theorem glue_declarations_counterexample:
  "functions (writer demo_state) = [add_writer, greet_writer] \<and>
   writeplgo markerless_world ''/tmp/plgo1'' demo_state =
     (Return None,
      demo_state\<lparr>disk := [''/tmp/plgo1/pl.go'' \<mapsto> ''package main\<newline>\<newline>\<newline>import C\<newline>'']\<rparr>) \<and>
   \<not> sublist (FuncDec add_writer) ''package main\<newline>\<newline>\<newline>import C\<newline>'' \<and>
   \<not> sublist (FuncDec greet_writer) ''package main\<newline>\<newline>\<newline>import C\<newline>''"
proof -
  have "\<not> sublist (FuncDec add_writer) ''package main\<newline>\<newline>\<newline>import C\<newline>''"
    unfolding strings_Index_None_iff [symmetric] by (simp add: add_writer_def)
  moreover have "\<not> sublist (FuncDec greet_writer) ''package main\<newline>\<newline>\<newline>import C\<newline>''"
    unfolding strings_Index_None_iff [symmetric] by (simp add: greet_writer_def)
  moreover have "functions (writer demo_state) = [add_writer, greet_writer]"
    by (simp add: demo_state_def demo_writer_def)
  ultimately show ?thesis by (simp add: writeplgo_markerless)
qed

text \<open>
  C2, amended. When the text that reaches the replacement contains the marker, pl.go is that
  text with the first occurrence of the marker (no occurrence starts before it) replaced by
  the \<open>FuncDec\<close> fragments of the functions, one each, in the order of the list; when it
  does not contain the marker, pl.go is that text unchanged. The wrapper source consists of
  the header followed by the \<open>Code\<close> fragments, one each, in the order of the list: this
  is the text that \<open>writeExportedMethods\<close> passes through \<open>format.Source\<close> on its way
  to methods.go. The SQL script is its header followed by the \<open>SQL\<close> statements, one
  each, in the order of the list.
\<close>

theorem fragments_in_order:
  "(\<forall>src dir.
      readPlGoSource w = Inr src \<and> 12 \<le> length src \<and> exec_pg_config w = Inr dir \<and>
      sublist funcdec_marker (glue_template w src dir) \<and>
      ioutil_WriteFile_err w (filepath_Join w [tmp, ''pl.go'']) = None \<longrightarrow>
      (\<exists>pre post.
         glue_template w src dir = pre @ funcdec_marker @ post \<and>
         (\<forall>j<length pre. \<not> prefix funcdec_marker (drop j (glue_template w src dir))) \<and>
         writeplgo w tmp st =
           (Return None,
            st\<lparr>disk := (disk st)(filepath_Join w [tmp, ''pl.go''] \<mapsto>
                  pre @ concat (map FuncDec (functions (writer st))) @ post)\<rparr>)))
   \<and> (\<forall>src dir.
        readPlGoSource w = Inr src \<and> 12 \<le> length src \<and> exec_pg_config w = Inr dir \<and>
        \<not> sublist funcdec_marker (glue_template w src dir) \<and>
        ioutil_WriteFile_err w (filepath_Join w [tmp, ''pl.go'']) = None \<longrightarrow>
        writeplgo w tmp st =
          (Return None,
           st\<lparr>disk := (disk st)(filepath_Join w [tmp, ''pl.go''] \<mapsto> glue_template w src dir)\<rparr>))
   \<and> (\<forall>code.
        format_Source w (methods_header @ concat (map Code (functions (writer st)))) = Inr code \<and>
        ioutil_WriteFile_err w (filepath_Join w [tmp, ''methods.go'']) = None \<longrightarrow>
        writeExportedMethods w tmp st =
          (None, st\<lparr>disk := (disk st)(filepath_Join w [tmp, ''methods.go''] \<mapsto> code)\<rparr>))
   \<and> (os_Create w (filepath_Join w [tmp, PackageName (writer st) @ ''--0.1.sql'']) = None \<longrightarrow>
        WriteSQL w tmp st =
          (None,
           st\<lparr>disk := (disk st)(filepath_Join w [tmp, PackageName (writer st) @ ''--0.1.sql''] \<mapsto>
                 sql_header (PackageName (writer st)) @
                 concat (map (\<lambda>f. SQL f (PackageName (writer st))) (functions (writer st))))\<rparr>))"
proof (intro conjI allI impI)
  fix src dir
  assume a: "readPlGoSource w = Inr src \<and> 12 \<le> length src \<and> exec_pg_config w = Inr dir \<and>
      sublist funcdec_marker (glue_template w src dir) \<and>
      ioutil_WriteFile_err w (filepath_Join w [tmp, ''pl.go'']) = None"
  then obtain pre post where pp: "glue_template w src dir = pre @ funcdec_marker @ post"
    "\<forall>j<length pre. \<not> prefix funcdec_marker (drop j (glue_template w src dir))"
    "strings_Replace1 (glue_template w src dir) funcdec_marker
         (concat (map FuncDec (functions (writer st))))
       = pre @ concat (map FuncDec (functions (writer st))) @ post"
    using strings_Replace1_first by blast
  from a have "writeplgo w tmp st =
           (Return None,
            st\<lparr>disk := (disk st)(filepath_Join w [tmp, ''pl.go''] \<mapsto>
                  pre @ concat (map FuncDec (functions (writer st))) @ post)\<rparr>)"
    by (simp add: writeplgo_def ioutil_WriteFile_def pp(3) funcdecs_concat)
  with pp(1,2) show "\<exists>pre post.
         glue_template w src dir = pre @ funcdec_marker @ post \<and>
         (\<forall>j<length pre. \<not> prefix funcdec_marker (drop j (glue_template w src dir))) \<and>
         writeplgo w tmp st =
           (Return None,
            st\<lparr>disk := (disk st)(filepath_Join w [tmp, ''pl.go''] \<mapsto>
                  pre @ concat (map FuncDec (functions (writer st))) @ post)\<rparr>)"
    by blast
next
  fix src dir
  assume "readPlGoSource w = Inr src \<and> 12 \<le> length src \<and> exec_pg_config w = Inr dir \<and>
        \<not> sublist funcdec_marker (glue_template w src dir) \<and>
        ioutil_WriteFile_err w (filepath_Join w [tmp, ''pl.go'']) = None"
  then show "writeplgo w tmp st =
          (Return None,
           st\<lparr>disk := (disk st)(filepath_Join w [tmp, ''pl.go''] \<mapsto> glue_template w src dir)\<rparr>)"
    by (simp add: writeplgo_def strings_Replace1_absent ioutil_WriteFile_def)
next
  fix code
  assume "format_Source w (methods_header @ concat (map Code (functions (writer st)))) = Inr code \<and>
        ioutil_WriteFile_err w (filepath_Join w [tmp, ''methods.go'']) = None"
  then show "writeExportedMethods w tmp st =
          (None, st\<lparr>disk := (disk st)(filepath_Join w [tmp, ''methods.go''] \<mapsto> code)\<rparr>)"
    by (simp add: writeExportedMethods_def methods_buf_concat ioutil_WriteFile_def)
next
  assume "os_Create w (filepath_Join w [tmp, PackageName (writer st) @ ''--0.1.sql'']) = None"
  then show "WriteSQL w tmp st =
          (None,
           st\<lparr>disk := (disk st)(filepath_Join w [tmp, PackageName (writer st) @ ''--0.1.sql''] \<mapsto>
                 sql_header (PackageName (writer st)) @
                 concat (map (\<lambda>f. SQL f (PackageName (writer st))) (functions (writer st))))\<rparr>)"
    by (simp add: WriteSQL_def sql_script_concat Let_def)
qed

theorem fragments_in_order_witness:
  "(\<exists>pre post.
      glue_template demo_world demo_template ''/usr/include/postgresql/14/server''
        = pre @ funcdec_marker @ post \<and>
      (\<forall>j<length pre. \<not> prefix funcdec_marker
         (drop j (glue_template demo_world demo_template ''/usr/include/postgresql/14/server''))) \<and>
      writeplgo demo_world ''/tmp/plgo1'' demo_state =
        (Return None,
         demo_state\<lparr>disk := [''/tmp/plgo1/pl.go'' \<mapsto>
            pre @ concat (map FuncDec [add_writer, greet_writer]) @ post]\<rparr>))
   \<and> writeplgo markerless_world ''/tmp/plgo1'' demo_state =
       (Return None,
        demo_state\<lparr>disk := [''/tmp/plgo1/pl.go'' \<mapsto> ''package main\<newline>\<newline>\<newline>import C\<newline>'']\<rparr>)
   \<and> writeExportedMethods demo_world ''/tmp/plgo1'' demo_state =
       (None, demo_state\<lparr>disk := [''/tmp/plgo1/methods.go'' \<mapsto>
                methods_header @ ''func Add() {}\<newline>func Greet() {}\<newline>'']\<rparr>)
   \<and> WriteSQL demo_world ''/tmp/plgo1'' demo_state =
       (None, demo_state\<lparr>disk := [''/tmp/plgo1/demo--0.1.sql'' \<mapsto>
                sql_header ''demo'' @
                ''CREATE FUNCTION Add() AS demo;\<newline>CREATE FUNCTION Greet() AS demo;\<newline>'']\<rparr>)"
proof -
  note inst = fragments_in_order [of demo_world "''/tmp/plgo1''" demo_state]
  have fs: "functions (writer demo_state) = [add_writer, greet_writer]"
    and nm: "PackageName (writer demo_state) = ''demo''"
    and dk: "disk demo_state = Map.empty"
    by (simp_all add: demo_state_def demo_writer_def)
  have len: "12 \<le> length demo_template" by (simp add: demo_template_def)
  have pg: "exec_pg_config demo_world = Inr ''/usr/include/postgresql/14/server''"
    by (simp add: demo_world_def)
  have present: "sublist funcdec_marker
      (glue_template demo_world demo_template ''/usr/include/postgresql/14/server'')"
    using strings_Index_None_iff
      [of "glue_template demo_world demo_template ''/usr/include/postgresql/14/server''" funcdec_marker]
    by (simp add: glue_template_demo funcdec_marker_def)
  have jn: "filepath_Join demo_world [''/tmp/plgo1'', ''pl.go''] = ''/tmp/plgo1/pl.go''"
    "filepath_Join demo_world [''/tmp/plgo1'', ''methods.go''] = ''/tmp/plgo1/methods.go''"
    "filepath_Join demo_world [''/tmp/plgo1'', ''demo--0.1.sql''] = ''/tmp/plgo1/demo--0.1.sql''"
    by (simp_all add: demo_world_def)
  have ok: "ioutil_WriteFile_err demo_world p = None" "os_Create demo_world p = None" for p
    by (simp_all add: demo_world_def)
  have fmt: "format_Source demo_world src = Inr src" for src
    by (simp add: demo_world_def)
  have "\<exists>pre post.
      glue_template demo_world demo_template ''/usr/include/postgresql/14/server''
        = pre @ funcdec_marker @ post \<and>
      (\<forall>j<length pre. \<not> prefix funcdec_marker
         (drop j (glue_template demo_world demo_template ''/usr/include/postgresql/14/server''))) \<and>
      writeplgo demo_world ''/tmp/plgo1'' demo_state =
        (Return None,
         demo_state\<lparr>disk := (disk demo_state)(filepath_Join demo_world [''/tmp/plgo1'', ''pl.go''] \<mapsto>
            pre @ concat (map FuncDec (functions (writer demo_state))) @ post)\<rparr>)"
    using inst [THEN conjunct1, rule_format, of demo_template "''/usr/include/postgresql/14/server''"]
      readPlGoSource_demo len pg present ok(1) by simp
  then have a: "\<exists>pre post.
      glue_template demo_world demo_template ''/usr/include/postgresql/14/server''
        = pre @ funcdec_marker @ post \<and>
      (\<forall>j<length pre. \<not> prefix funcdec_marker
         (drop j (glue_template demo_world demo_template ''/usr/include/postgresql/14/server''))) \<and>
      writeplgo demo_world ''/tmp/plgo1'' demo_state =
        (Return None,
         demo_state\<lparr>disk := [''/tmp/plgo1/pl.go'' \<mapsto>
            pre @ concat (map FuncDec [add_writer, greet_writer]) @ post]\<rparr>)"
    by (simp only: fs jn dk)
  have "writeExportedMethods demo_world ''/tmp/plgo1'' demo_state =
          (None, demo_state\<lparr>disk := (disk demo_state)(filepath_Join demo_world [''/tmp/plgo1'', ''methods.go''] \<mapsto>
             methods_header @ concat (map Code (functions (writer demo_state))))\<rparr>)"
    using inst [THEN conjunct2, THEN conjunct2, THEN conjunct1, rule_format] fmt ok(1) by simp
  then have b: "writeExportedMethods demo_world ''/tmp/plgo1'' demo_state =
       (None, demo_state\<lparr>disk := [''/tmp/plgo1/methods.go'' \<mapsto>
                methods_header @ ''func Add() {}\<newline>func Greet() {}\<newline>'']\<rparr>)"
    by (simp add: fs jn dk add_writer_def greet_writer_def)
  have "WriteSQL demo_world ''/tmp/plgo1'' demo_state =
          (None,
           demo_state\<lparr>disk := (disk demo_state)(filepath_Join demo_world [''/tmp/plgo1'', PackageName (writer demo_state) @ ''--0.1.sql''] \<mapsto>
                 sql_header (PackageName (writer demo_state)) @
                 concat (map (\<lambda>f. SQL f (PackageName (writer demo_state))) (functions (writer demo_state))))\<rparr>)"
    using inst [THEN conjunct2, THEN conjunct2, THEN conjunct2, rule_format] ok(2) by simp
  then have c: "WriteSQL demo_world ''/tmp/plgo1'' demo_state =
       (None, demo_state\<lparr>disk := [''/tmp/plgo1/demo--0.1.sql'' \<mapsto>
                sql_header ''demo'' @
                ''CREATE FUNCTION Add() AS demo;\<newline>CREATE FUNCTION Greet() AS demo;\<newline>'']\<rparr>)"
    by (simp add: fs nm jn dk add_writer_def greet_writer_def)
  have mlen: "12 \<le> length markerless_template" by (simp add: markerless_template_def)
  have mpg: "exec_pg_config markerless_world = Inr ''/usr/include/postgresql/14/server''"
    by (simp add: markerless_world_def demo_world_def)
  have mabsent: "\<not> sublist funcdec_marker
      (glue_template markerless_world markerless_template ''/usr/include/postgresql/14/server'')"
    unfolding strings_Index_None_iff [symmetric] glue_template_markerless
    by (simp add: funcdec_marker_def)
  have mwr: "ioutil_WriteFile_err markerless_world
               (filepath_Join markerless_world [''/tmp/plgo1'', ''pl.go'']) = None"
    by (simp add: markerless_world_def demo_world_def)
  have mjn: "filepath_Join markerless_world [''/tmp/plgo1'', ''pl.go''] = ''/tmp/plgo1/pl.go''"
    by (simp add: markerless_world_def demo_world_def)
  have d: "writeplgo markerless_world ''/tmp/plgo1'' demo_state =
       (Return None,
        demo_state\<lparr>disk := [''/tmp/plgo1/pl.go'' \<mapsto> ''package main\<newline>\<newline>\<newline>import C\<newline>'']\<rparr>)"
    using fragments_in_order [of markerless_world "''/tmp/plgo1''" demo_state,
        THEN conjunct2, THEN conjunct1, rule_format,
        of markerless_template "''/usr/include/postgresql/14/server''",
        OF conjI [OF readPlGoSource_markerless conjI [OF mlen conjI [OF mpg conjI [OF mabsent mwr]]]]]
    by (simp only: mjn dk glue_template_markerless)
  from a b c d show ?thesis by blast
qed

subsection \<open>The packaging files of the module demo\<close>

text \<open>
  C6. For a module writer named \<open>demo\<close> with the functions \<open>add\<close> and \<open>greet\<close>, in this
  order: the .control file contains "demo extension", the Makefile contains
  "EXTENSION = demo", and the SQL script is the header followed by the statement of \<open>add\<close>
  and then the statement of \<open>greet\<close>, each whenever the file can be written.
\<close>

theorem demo_artifacts:
  assumes "PackageName (writer st) = ''demo''" and "functions (writer st) = [add, greet]"
  shows "(ioutil_WriteFile_err w (filepath_Join w [path, ''demo.control'']) = None \<longrightarrow>
            (\<exists>content.
               WriteControl w path st =
                 (None, st\<lparr>disk := (disk st)(filepath_Join w [path, ''demo.control''] \<mapsto> content)\<rparr>) \<and>
               sublist ''demo extension'' content))
       \<and> (ioutil_WriteFile_err w (filepath_Join w [path, ''Makefile'']) = None \<longrightarrow>
            (\<exists>content.
               WriteMakefile w path st =
                 (None, st\<lparr>disk := (disk st)(filepath_Join w [path, ''Makefile''] \<mapsto> content)\<rparr>) \<and>
               sublist ''EXTENSION = demo'' content))
       \<and> (os_Create w (filepath_Join w [path, ''demo--0.1.sql'']) = None \<longrightarrow>
            WriteSQL w path st =
              (None, st\<lparr>disk := (disk st)(filepath_Join w [path, ''demo--0.1.sql''] \<mapsto>
                            sql_header ''demo'' @ SQL add ''demo'' @ SQL greet ''demo'')\<rparr>))"
proof (intro conjI impI)
  assume "ioutil_WriteFile_err w (filepath_Join w [path, ''demo.control'']) = None"
  with assms have "WriteControl w path st =
      (None, st\<lparr>disk := (disk st)(filepath_Join w [path, ''demo.control''] \<mapsto> control_text ''demo'')\<rparr>)"
    by (simp add: WriteControl_def ioutil_WriteFile_def)
  moreover have "sublist ''demo extension'' (control_text ''demo'')"
    using control_text_extension [of "''demo''"] by simp
  ultimately show "\<exists>content.
               WriteControl w path st =
                 (None, st\<lparr>disk := (disk st)(filepath_Join w [path, ''demo.control''] \<mapsto> content)\<rparr>) \<and>
               sublist ''demo extension'' content"
    by blast
next
  assume "ioutil_WriteFile_err w (filepath_Join w [path, ''Makefile'']) = None"
  with assms have "WriteMakefile w path st =
      (None, st\<lparr>disk := (disk st)(filepath_Join w [path, ''Makefile''] \<mapsto> makefile_text ''demo'')\<rparr>)"
    by (simp add: WriteMakefile_def ioutil_WriteFile_def)
  moreover have "sublist ''EXTENSION = demo'' (makefile_text ''demo'')"
    using makefile_text_extension [of "''demo''"] by (simp add: prefix_imp_sublist)
  ultimately show "\<exists>content.
               WriteMakefile w path st =
                 (None, st\<lparr>disk := (disk st)(filepath_Join w [path, ''Makefile''] \<mapsto> content)\<rparr>) \<and>
               sublist ''EXTENSION = demo'' content"
    by blast
next
  assume "os_Create w (filepath_Join w [path, ''demo--0.1.sql'']) = None"
  with assms show "WriteSQL w path st =
              (None, st\<lparr>disk := (disk st)(filepath_Join w [path, ''demo--0.1.sql''] \<mapsto>
                            sql_header ''demo'' @ SQL add ''demo'' @ SQL greet ''demo'')\<rparr>)"
    by (simp add: WriteSQL_def sql_script_concat Let_def)
qed

theorem demo_artifacts_witness:
  "(\<exists>content.
      WriteControl demo_world ''/tmp/plgo1'' demo_state =
        (None, demo_state\<lparr>disk := [''/tmp/plgo1/demo.control'' \<mapsto> content]\<rparr>) \<and>
      sublist ''demo extension'' content)
   \<and> (\<exists>content.
      WriteMakefile demo_world ''/tmp/plgo1'' demo_state =
        (None, demo_state\<lparr>disk := [''/tmp/plgo1/Makefile'' \<mapsto> content]\<rparr>) \<and>
      sublist ''EXTENSION = demo'' content)
   \<and> WriteSQL demo_world ''/tmp/plgo1'' demo_state =
       (None, demo_state\<lparr>disk := [''/tmp/plgo1/demo--0.1.sql'' \<mapsto>
                sql_header ''demo'' @
                ''CREATE FUNCTION Add() AS demo;\<newline>CREATE FUNCTION Greet() AS demo;\<newline>'']\<rparr>)"
proof -
  have fs: "functions (writer demo_state) = [add_writer, greet_writer]"
    and nm: "PackageName (writer demo_state) = ''demo''"
    and dk: "disk demo_state = Map.empty"
    by (simp_all add: demo_state_def demo_writer_def)
  note inst = demo_artifacts [OF nm fs, of demo_world "''/tmp/plgo1''"]
  have jn: "filepath_Join demo_world [''/tmp/plgo1'', ''demo.control''] = ''/tmp/plgo1/demo.control''"
    "filepath_Join demo_world [''/tmp/plgo1'', ''Makefile''] = ''/tmp/plgo1/Makefile''"
    "filepath_Join demo_world [''/tmp/plgo1'', ''demo--0.1.sql''] = ''/tmp/plgo1/demo--0.1.sql''"
    by (simp_all add: demo_world_def)
  have ok: "ioutil_WriteFile_err demo_world p = None" "os_Create demo_world p = None" for p
    by (simp_all add: demo_world_def)
  have a: "\<exists>content.
      WriteControl demo_world ''/tmp/plgo1'' demo_state =
        (None, demo_state\<lparr>disk := (disk demo_state)(filepath_Join demo_world [''/tmp/plgo1'', ''demo.control''] \<mapsto> content)\<rparr>) \<and>
      sublist ''demo extension'' content"
    using inst [THEN conjunct1, rule_format] ok(1) by simp
  have b: "\<exists>content.
      WriteMakefile demo_world ''/tmp/plgo1'' demo_state =
        (None, demo_state\<lparr>disk := (disk demo_state)(filepath_Join demo_world [''/tmp/plgo1'', ''Makefile''] \<mapsto> content)\<rparr>) \<and>
      sublist ''EXTENSION = demo'' content"
    using inst [THEN conjunct2, THEN conjunct1, rule_format] ok(1) by simp
  have c: "WriteSQL demo_world ''/tmp/plgo1'' demo_state =
      (None, demo_state\<lparr>disk := (disk demo_state)(filepath_Join demo_world [''/tmp/plgo1'', ''demo--0.1.sql''] \<mapsto>
                            sql_header ''demo'' @ SQL add_writer ''demo'' @ SQL greet_writer ''demo'')\<rparr>)"
    using inst [THEN conjunct2, THEN conjunct2, rule_format] ok(2) by simp
  from a have a': "\<exists>content.
      WriteControl demo_world ''/tmp/plgo1'' demo_state =
        (None, demo_state\<lparr>disk := [''/tmp/plgo1/demo.control'' \<mapsto> content]\<rparr>) \<and>
      sublist ''demo extension'' content"
    by (simp only: jn dk)
  from b have b': "\<exists>content.
      WriteMakefile demo_world ''/tmp/plgo1'' demo_state =
        (None, demo_state\<lparr>disk := [''/tmp/plgo1/Makefile'' \<mapsto> content]\<rparr>) \<and>
      sublist ''EXTENSION = demo'' content"
    by (simp only: jn dk)
  from c have c': "WriteSQL demo_world ''/tmp/plgo1'' demo_state =
       (None, demo_state\<lparr>disk := [''/tmp/plgo1/demo--0.1.sql'' \<mapsto>
                sql_header ''demo'' @
                ''CREATE FUNCTION Add() AS demo;\<newline>CREATE FUNCTION Greet() AS demo;\<newline>'']\<rparr>)"
    by (simp add: jn dk add_writer_def greet_writer_def)
  from a' b' c' show ?thesis by blast
qed

subsection \<open>WriteModule stops at the first failing step\<close>

text \<open>
  C7. \<open>WriteModule\<close> runs \<open>writeUserPackage\<close>, \<open>writeplgo\<close> and
  \<open>writeExportedMethods\<close> in this order, each on the state the previous one left. When a
  step returns an error, \<open>WriteModule\<close> returns that same error together with the state
  that step left: the later steps have not run, so the files differ from the initial ones
  at most at package.go when the first step fails, and at most at package.go and pl.go when
  the second fails. When all three succeed it returns the directory. An error of the
  formatter is returned by \<open>writeExportedMethods\<close> as it is, with nothing written.
\<close>

theorem WriteModule_fail_fast:
  assumes "buildPath w = Inr tmp"
  shows "(\<forall>err st1.
            writeUserPackage w tmp st = (Some err, st1) \<longrightarrow>
            WriteModule w st = (Return (Inl err), st1) \<and>
            (\<forall>p. p \<noteq> filepath_Join w [tmp, ''package.go''] \<longrightarrow> disk st1 p = disk st p))
       \<and> (\<forall>err st1 st2.
            writeUserPackage w tmp st = (None, st1) \<and>
            writeplgo w tmp st1 = (Return (Some err), st2) \<longrightarrow>
            WriteModule w st = (Return (Inl err), st2) \<and>
            (\<forall>p. p \<noteq> filepath_Join w [tmp, ''package.go''] \<and>
                 p \<noteq> filepath_Join w [tmp, ''pl.go''] \<longrightarrow> disk st2 p = disk st p))
       \<and> (\<forall>err st1 st2 st3.
            writeUserPackage w tmp st = (None, st1) \<and>
            writeplgo w tmp st1 = (Return None, st2) \<and>
            writeExportedMethods w tmp st2 = (Some err, st3) \<longrightarrow>
            WriteModule w st = (Return (Inl err), st3))
       \<and> (\<forall>st1 st2 st3.
            writeUserPackage w tmp st = (None, st1) \<and>
            writeplgo w tmp st1 = (Return None, st2) \<and>
            writeExportedMethods w tmp st2 = (None, st3) \<longrightarrow>
            WriteModule w st = (Return (Inr tmp), st3))
       \<and> (\<forall>err st2.
            format_Source w (methods_buf (functions (writer (st2::state)))) = Inl err \<longrightarrow>
            writeExportedMethods w tmp st2 = (Some err, st2))"
proof (intro conjI allI impI)
  fix err st1
  assume a: "writeUserPackage w tmp st = (Some err, st1)"
  with assms show "WriteModule w st = (Return (Inl err), st1)"
    by (simp add: WriteModule_def)
  fix p
  assume "p \<noteq> filepath_Join w [tmp, ''package.go'']"
  from writeUserPackage_frame [OF this, of st] a show "disk st1 p = disk st p" by simp
next
  fix err st1 st2
  assume a: "writeUserPackage w tmp st = (None, st1) \<and>
            writeplgo w tmp st1 = (Return (Some err), st2)"
  with assms show "WriteModule w st = (Return (Inl err), st2)"
    by (simp add: WriteModule_def)
  fix p
  assume p: "p \<noteq> filepath_Join w [tmp, ''package.go''] \<and> p \<noteq> filepath_Join w [tmp, ''pl.go'']"
  then have "disk st1 p = disk st p"
    using writeUserPackage_frame [of p w tmp st] a by simp
  moreover from p have "disk st2 p = disk st1 p"
    using writeplgo_frame [of p w tmp st1] a by simp
  ultimately show "disk st2 p = disk st p" by simp
next
  fix err st1 st2 st3
  assume "writeUserPackage w tmp st = (None, st1) \<and>
            writeplgo w tmp st1 = (Return None, st2) \<and>
            writeExportedMethods w tmp st2 = (Some err, st3)"
  with assms show "WriteModule w st = (Return (Inl err), st3)"
    by (simp add: WriteModule_def)
next
  fix st1 st2 st3
  assume "writeUserPackage w tmp st = (None, st1) \<and>
            writeplgo w tmp st1 = (Return None, st2) \<and>
            writeExportedMethods w tmp st2 = (None, st3)"
  with assms show "WriteModule w st = (Return (Inr tmp), st3)"
    by (simp add: WriteModule_def)
next
  fix err and st2 :: state
  assume "format_Source w (methods_buf (functions (writer st2))) = Inl err"
  then show "writeExportedMethods w tmp st2 = (Some err, st2)"
    by (simp add: writeExportedMethods_def)
qed

theorem WriteModule_fail_fast_witness:
  "WriteModule readonly_world demo_state =
     (Return (Inl (Wrapf ''Cannot write file tempdir: '' (LibError ''permission denied''))),
      demo_state)
   \<and> WriteModule no_pg_config_world demo_state =
     (Return (Inl (Wrapf ''Cannot run pg_config: '' (LibError ''executable file not found''))),
      demo_state\<lparr>disk := [''/tmp/plgo1/package.go'' \<mapsto> package_go]\<rparr>)
   \<and> WriteModule bad_format_world demo_state =
     (Return (Inl (LibError ''expected declaration'')),
      demo_state\<lparr>disk := [''/tmp/plgo1/package.go'' \<mapsto> package_go,
                          ''/tmp/plgo1/pl.go'' \<mapsto> pl_go]\<rparr>)
   \<and> WriteModule demo_world demo_state =
     (Return (Inr ''/tmp/plgo1''),
      demo_state\<lparr>disk := [''/tmp/plgo1/package.go'' \<mapsto> package_go,
                          ''/tmp/plgo1/pl.go'' \<mapsto> pl_go,
                          ''/tmp/plgo1/methods.go'' \<mapsto> methods_go]\<rparr>)"
proof -
  let ?st1 = "demo_state\<lparr>disk := [''/tmp/plgo1/package.go'' \<mapsto> package_go]\<rparr>"
  let ?st2 = "demo_state\<lparr>disk := [''/tmp/plgo1/package.go'' \<mapsto> package_go,
                                    ''/tmp/plgo1/pl.go'' \<mapsto> pl_go]\<rparr>"
  let ?st3 = "demo_state\<lparr>disk := [''/tmp/plgo1/package.go'' \<mapsto> package_go,
                                    ''/tmp/plgo1/pl.go'' \<mapsto> pl_go,
                                    ''/tmp/plgo1/methods.go'' \<mapsto> methods_go]\<rparr>"
  have bp: "buildPath readonly_world = Inr ''/tmp/plgo1''"
    "buildPath no_pg_config_world = Inr ''/tmp/plgo1''"
    "buildPath bad_format_world = Inr ''/tmp/plgo1''"
    "buildPath demo_world = Inr ''/tmp/plgo1''"
    by (simp_all add: readonly_world_def no_pg_config_world_def bad_format_world_def demo_world_def)
  have step2: "writeplgo demo_world ''/tmp/plgo1'' ?st1 = (Return None, ?st2)"
    by (simp add: writeplgo_demo_any demo_state_functions)
  have step3: "writeExportedMethods demo_world ''/tmp/plgo1'' ?st2 = (None, ?st3)"
    by (simp add: writeExportedMethods_demo_any demo_state_functions)

  have "writeUserPackage readonly_world ''/tmp/plgo1'' demo_state =
          (Some (Wrapf ''Cannot write file tempdir: '' (LibError ''permission denied'')), demo_state)"
    by (simp add: writeUserPackage_def readonly_world_def demo_world_def demo_state_def)
  with WriteModule_fail_fast [OF bp(1), of demo_state, THEN conjunct1, rule_format]
  have a: "WriteModule readonly_world demo_state =
     (Return (Inl (Wrapf ''Cannot write file tempdir: '' (LibError ''permission denied''))),
      demo_state)"
    by blast

  have "writeUserPackage no_pg_config_world ''/tmp/plgo1'' demo_state = (None, ?st1)"
    by (simp add: no_pg_config_world_def writeUserPackage_world writeUserPackage_demo)
  moreover have "writeplgo no_pg_config_world ''/tmp/plgo1'' ?st1 =
     (Return (Some (Wrapf ''Cannot run pg_config: '' (LibError ''executable file not found''))), ?st1)"
    by (simp add: writeplgo_def no_pg_config_world_def readPlGoSource_world readPlGoSource_demo
        demo_template_def)
  ultimately have b: "WriteModule no_pg_config_world demo_state =
     (Return (Inl (Wrapf ''Cannot run pg_config: '' (LibError ''executable file not found''))), ?st1)"
    using WriteModule_fail_fast [OF bp(2), of demo_state, THEN conjunct2, THEN conjunct1, rule_format]
    by blast

  have fmt: "format_Source bad_format_world (methods_buf (functions (writer ?st2))) =
          Inl (LibError ''expected declaration'')"
    by (simp add: bad_format_world_def)
  have "writeExportedMethods bad_format_world ''/tmp/plgo1'' ?st2 =
          (Some (LibError ''expected declaration''), ?st2)"
    using WriteModule_fail_fast [OF bp(3), of demo_state, THEN conjunct2, THEN conjunct2,
        THEN conjunct2, THEN conjunct2, rule_format, OF fmt] .
  moreover have "writeUserPackage bad_format_world ''/tmp/plgo1'' demo_state = (None, ?st1)"
    by (simp add: bad_format_world_def writeUserPackage_world writeUserPackage_demo)
  moreover have "writeplgo bad_format_world ''/tmp/plgo1'' ?st1 = (Return None, ?st2)"
    by (simp only: bad_format_world_def writeplgo_world step2)
  ultimately have c: "WriteModule bad_format_world demo_state =
     (Return (Inl (LibError ''expected declaration'')), ?st2)"
    using WriteModule_fail_fast [OF bp(3), of demo_state, THEN conjunct2, THEN conjunct2,
        THEN conjunct1, rule_format]
    by blast

  have d: "WriteModule demo_world demo_state = (Return (Inr ''/tmp/plgo1''), ?st3)"
    using WriteModule_fail_fast [OF bp(4), of demo_state, THEN conjunct2, THEN conjunct2,
        THEN conjunct2, THEN conjunct1, rule_format]
      writeUserPackage_demo step2 step3
    by blast
  from a b c d show ?thesis by blast
qed

subsection \<open>The order of iteration over the files of the package\<close>




end
